theory Spec2Isabelle
  imports Main
begin

section \<open>Python values used by telegram\_bot.py\<close>

text \<open>
  A Python \<open>str\<close> is a sequence of Unicode code points; the replies of the bot contain
  code points above 255, so a string is a list of code points.
\<close>

type_synonym pystr = "nat list"

definition ascii :: "string \<Rightarrow> pystr" where
  "ascii s = map of_char s"

definition nl :: pystr where
  "nl = [10]"

text \<open>\<open>str.isspace\<close> on one code point: the white space that \<open>str.strip()\<close> removes.\<close>

definition isspace :: "nat \<Rightarrow> bool" where
  "isspace c \<longleftrightarrow>
     (9 \<le> c \<and> c \<le> 13) \<or> (28 \<le> c \<and> c \<le> 32) \<or> c = 133 \<or> c = 160 \<or> c = 5760 \<or>
     (8192 \<le> c \<and> c \<le> 8202) \<or> c = 8232 \<or> c = 8233 \<or> c = 8239 \<or> c = 8287 \<or> c = 12288"

definition strip :: "pystr \<Rightarrow> pystr" where
  "strip s = rev (dropWhile isspace (rev (dropWhile isspace s)))"

text \<open>\<open>str(n)\<close> for an \<open>int\<close>: the decimal digits, with a minus sign below zero.\<close>

function digits :: "nat \<Rightarrow> pystr" where
  "digits n = (if n < 10 then [48 + n] else digits (n div 10) @ [48 + n mod 10])"
  by pat_completeness auto
termination
  by (relation "measure id") auto

definition str_int :: "int \<Rightarrow> pystr" where
  "str_int i = (if i < 0 then 45 # digits (nat (- i)) else digits (nat i))"

text \<open>\<open>sep.join(xs)\<close>.\<close>

fun join :: "pystr \<Rightarrow> pystr list \<Rightarrow> pystr" where
  "join sep [] = []"
| "join sep [x] = x"
| "join sep (x # y # ys) = x @ sep @ join sep (y # ys)"

text \<open>\<open>sub in s\<close> on strings, and \<open>s.lower()\<close> on the ASCII letters.\<close>

fun str_contains :: "pystr \<Rightarrow> pystr \<Rightarrow> bool" where
  "str_contains sub [] = (sub = [])"
| "str_contains sub (c # cs) = (take (length sub) (c # cs) = sub \<or> str_contains sub cs)"

definition lower :: "pystr \<Rightarrow> pystr" where
  "lower s = map (\<lambda>c. if 65 \<le> c \<and> c \<le> 90 then c + 32 else c) s"

text \<open>The exceptions the handlers could raise: a missing dictionary key or set element.\<close>

datatype error = KeyError

text \<open>
  A \<open>dict\<close> with string keys, as an association list. The key of a lookup may be
  \<open>None\<close> (the result of \<open>user_data.get\<close>), which is hashable and is never a key here.
\<close>

type_synonym pydict = "(pystr \<times> pystr) list"

definition dict_contains :: "pydict \<Rightarrow> pystr option \<Rightarrow> bool" where
  "dict_contains d k = (case k of None \<Rightarrow> False | Some u \<Rightarrow> map_of d u \<noteq> None)"

definition dict_getitem :: "pydict \<Rightarrow> pystr option \<Rightarrow> error + pystr" where
  "dict_getitem d k =
     (case k of None \<Rightarrow> Inl KeyError
      | Some u \<Rightarrow> (case map_of d u of None \<Rightarrow> Inl KeyError | Some v \<Rightarrow> Inr v))"

text \<open>\<open>set.remove(x)\<close> raises \<open>KeyError\<close> when \<open>x\<close> is not an element.\<close>

definition set_remove :: "int set \<Rightarrow> int \<Rightarrow> error + int set" where
  "set_remove s x = (if x \<in> s then Inr (s - {x}) else Inl KeyError)"

section \<open>Module constants\<close>

definition USERNAME :: int where
  "USERNAME = 0"

definition PASSWORD :: int where
  "PASSWORD = 1"

text \<open>\<open>ConversationHandler.END\<close> of the library.\<close>

definition END :: int where
  "END = - 1"

definition VALID_CREDENTIALS :: pydict where
  "VALID_CREDENTIALS =
     [(ascii ''admin'', ascii ''admin123''),
      (ascii ''user1'', ascii ''pass123''),
      (ascii ''demo'', ascii ''demo123'')]"

section \<open>Reply texts\<close>

definition MSG_START_LOGGED_IN :: pystr where
  "MSG_START_LOGGED_IN =
     [128275] @ ascii '' You'' @ [39] @ ascii ''re already logged in!'' @ nl @ nl @
     ascii ''Available commands:'' @ nl @
     ascii ''/info - Get system information'' @ nl @
     ascii ''/stats - View statistics'' @ nl @
     ascii ''/users - List users'' @ nl @
     ascii ''/data - Get data summary'' @ nl @
     ascii ''/logout - Logout from bot''"

definition MSG_START_WELCOME :: pystr where
  "MSG_START_WELCOME =
     [128075] @ ascii '' Welcome to the Authenticated Bot!'' @ nl @ nl @
     [128274] @ ascii '' Please login to access commands.'' @ nl @
     ascii ''Use /login to authenticate.''"

definition MSG_ALREADY_LOGGED_IN :: pystr where
  "MSG_ALREADY_LOGGED_IN =
     ascii ''You'' @ [39] @ ascii ''re already logged in! Use /logout to logout first.''"

definition MSG_LOGIN_PROMPT :: pystr where
  "MSG_LOGIN_PROMPT =
     [128272] @ ascii '' Login Required'' @ nl @ nl @
     ascii ''Please enter your username:'' @ nl @
     ascii ''(Send /cancel to abort)''"

definition MSG_PASSWORD_PROMPT :: "pystr \<Rightarrow> pystr" where
  "MSG_PASSWORD_PROMPT username =
     ascii ''Username: '' @ username @ nl @ nl @
     ascii ''Now enter your password:''"

definition MSG_COMMAND_LIST :: pystr where
  "MSG_COMMAND_LIST =
     [128202] @ ascii '' Information Commands:'' @ nl @
     ascii ''/info - Get system information'' @ nl @
     ascii ''/stats - View statistics'' @ nl @
     ascii ''/users - List users'' @ nl @
     ascii ''/data - Get data summary'' @ nl @ nl @
     [128295] @ ascii '' Other Commands:'' @ nl @
     ascii ''/help - Show this help message'' @ nl @
     ascii ''/logout - Logout from bot''"

definition MSG_LOGIN_SUCCESS :: pystr where
  "MSG_LOGIN_SUCCESS =
     [9989] @ ascii '' Login successful!'' @ nl @ nl @
     ascii ''You now have access to all commands:'' @ nl @ nl @
     MSG_COMMAND_LIST"

definition MSG_INVALID_CREDENTIALS :: pystr where
  "MSG_INVALID_CREDENTIALS =
     [10060] @ ascii '' Invalid credentials!'' @ nl @ nl @
     ascii ''Please try again with /login''"

definition MSG_LOGIN_CANCELLED :: pystr where
  "MSG_LOGIN_CANCELLED = ascii ''Login cancelled.''"

definition MSG_LOGGED_OUT :: pystr where
  "MSG_LOGGED_OUT =
     [128075] @ ascii '' Logged out successfully!'' @ nl @
     ascii ''Use /login to login again.''"

definition MSG_NOT_LOGGED_IN :: pystr where
  "MSG_NOT_LOGGED_IN = ascii ''You'' @ [39] @ ascii ''re not logged in.''"

definition MSG_HELP :: pystr where
  "MSG_HELP = [128218] @ ascii '' Available Commands:'' @ nl @ nl @ MSG_COMMAND_LIST"

definition MSG_HELP_LOCKED :: pystr where
  "MSG_HELP_LOCKED =
     [128274] @ ascii '' Authentication Required'' @ nl @ nl @
     ascii ''Please /login first to access commands.'' @ nl @ nl @
     ascii ''Available after login:'' @ nl @
     [8226] @ ascii '' System information'' @ nl @
     [8226] @ ascii '' Statistics'' @ nl @
     [8226] @ ascii '' User lists'' @ nl @
     [8226] @ ascii '' Data summaries''"

definition MSG_AUTH_REQUIRED :: pystr where
  "MSG_AUTH_REQUIRED =
     [128274] @ ascii '' Authentication Required'' @ nl @ nl @
     ascii ''Please /login first to access this command.''"

definition MSG_INFO :: "nat \<Rightarrow> pystr" where
  "MSG_INFO n =
     [128202] @ ascii '' System Information'' @ nl @ nl @
     [8226] @ ascii '' Bot Status: Online'' @ nl @
     [8226] @ ascii '' Version: 1.0.0'' @ nl @
     [8226] @ ascii '' Active Users: '' @ str_int (int n) @ nl @
     [8226] @ ascii '' Database: Connected'' @ nl @
     [8226] @ ascii '' Last Update: 2025-10-06''"

definition MSG_STATS :: "nat \<Rightarrow> pystr" where
  "MSG_STATS n =
     [128200] @ ascii '' Statistics'' @ nl @ nl @
     [8226] @ ascii '' Total Requests: 1,234'' @ nl @
     [8226] @ ascii '' Active Sessions: '' @ str_int (int n) @ nl @
     [8226] @ ascii '' Success Rate: 98.5%'' @ nl @
     [8226] @ ascii '' Avg Response Time: 45ms'' @ nl @
     [8226] @ ascii '' Uptime: 99.9%''"

definition MSG_USERS :: "nat \<Rightarrow> pystr \<Rightarrow> pystr" where
  "MSG_USERS n user_list =
     [128101] @ ascii '' Active Users ('' @ str_int (int n) @ ascii '')'' @ nl @ nl @
     (if user_list \<noteq> [] then user_list else ascii ''No active users'')"

definition MSG_DATA :: pystr where
  "MSG_DATA =
     [128190] @ ascii '' Data Summary'' @ nl @ nl @
     [8226] @ ascii '' Records: 5,678'' @ nl @
     [8226] @ ascii '' Storage Used: 234 MB'' @ nl @
     [8226] @ ascii '' Last Backup: 2h ago'' @ nl @
     [8226] @ ascii '' Data Integrity: '' @ [9989] @ ascii '' Good'' @ nl @
     [8226] @ ascii '' Sync Status: '' @ [9989] @ ascii '' Synced''"

definition MSG_PLEASE_LOGIN :: pystr where
  "MSG_PLEASE_LOGIN = [128274] @ ascii '' Please /login first to use this bot.''"

section \<open>State and incoming updates\<close>

text \<open>
  What one handler call reads of its \<open>Update\<close>: the sender, the chat, the message and its
  text, the bot command the message starts with (\<open>None\<close> for plain text, which is what
  \<open>filters.TEXT & ~filters.COMMAND\<close> accepts), and whether the transport will refuse to
  delete the message.
\<close>

record update =
  effective_user_id :: int
  chat_id :: int
  message_id :: int
  message_text :: pystr
  command :: "string option"
  delete_raises :: bool

datatype level = INFO | WARNING

text \<open>
  The mutable state of the process: the module-level set \<open>authenticated_users\<close>, the
  library's \<open>context.user_data\<close> dictionary of every user, the conversation table of the
  \<open>ConversationHandler\<close> (keyed by chat and user, its default), and the effects on the
  outside: replies sent to a chat, messages deleted, log records written.
\<close>

record bot_state =
  authenticated_users :: "int set"
  user_data :: "int \<Rightarrow> (string \<rightharpoonup> pystr)"
  conversations :: "(int \<times> int) \<rightharpoonup> int"
  sent :: "(int \<times> pystr) list"
  deleted :: "(int \<times> int) list"
  logged :: "(level \<times> pystr) list"

definition reply_text :: "bot_state \<Rightarrow> update \<Rightarrow> pystr \<Rightarrow> bot_state" where
  "reply_text st upd msg = st\<lparr>sent := sent st @ [(chat_id upd, msg)]\<rparr>"

definition logger :: "level \<Rightarrow> bot_state \<Rightarrow> pystr \<Rightarrow> bot_state" where
  "logger lv st msg = st\<lparr>logged := logged st @ [(lv, msg)]\<rparr>"

text \<open>
  \<open>try: await update.message.delete() except: pass\<close>: the deletion is recorded when the
  transport accepts it, and a failure is swallowed.
\<close>

definition try_delete :: "bot_state \<Rightarrow> update \<Rightarrow> bot_state" where
  "try_delete st upd =
     (if delete_raises upd then st
      else st\<lparr>deleted := deleted st @ [(chat_id upd, message_id upd)]\<rparr>)"

section \<open>The session set\<close>

text \<open>\<open>self.authenticated_users.add(user_id)\<close> (line 108).\<close>

definition grant :: "bot_state \<Rightarrow> int \<Rightarrow> bot_state" where
  "grant st user_id = st\<lparr>authenticated_users := insert user_id (authenticated_users st)\<rparr>"

text \<open>\<open>len(self.authenticated_users)\<close> (lines 199, 210, 221).\<close>

definition count_users :: "bot_state \<Rightarrow> nat" where
  "count_users st = card (authenticated_users st)"

section \<open>Credential check\<close>

text \<open>
  The condition of line 107,
  \<open>username in VALID_CREDENTIALS and VALID_CREDENTIALS[username] == password\<close>:
  \<open>and\<close> evaluates the subscript only when the membership test holds.
\<close>

definition verify :: "pystr option \<Rightarrow> pystr \<Rightarrow> error + bool" where
  "verify username password =
     (if dict_contains VALID_CREDENTIALS username
      then (case dict_getitem VALID_CREDENTIALS username of
              Inl e \<Rightarrow> Inl e
            | Inr v \<Rightarrow> Inr (v = password))
      else Inr False)"

section \<open>The handlers of AuthenticatedBot\<close>

definition start :: "bot_state \<Rightarrow> update \<Rightarrow> bot_state" where
  "start st upd =
     (let user_id = effective_user_id upd in
      if user_id \<in> authenticated_users st
      then reply_text st upd MSG_START_LOGGED_IN
      else reply_text st upd MSG_START_WELCOME)"

definition login_start :: "bot_state \<Rightarrow> update \<Rightarrow> bot_state \<times> int" where
  "login_start st upd =
     (let user_id = effective_user_id upd in
      if user_id \<in> authenticated_users st
      then (reply_text st upd MSG_ALREADY_LOGGED_IN, END)
      else (reply_text st upd MSG_LOGIN_PROMPT, USERNAME))"

definition receive_username :: "bot_state \<Rightarrow> update \<Rightarrow> bot_state \<times> int" where
  "receive_username st upd =
     (let username = strip (message_text upd);
          uid = effective_user_id upd;
          st1 = st\<lparr>user_data := (user_data st)(uid := (user_data st uid)(''username'' \<mapsto> username))\<rparr>
      in (reply_text st1 upd (MSG_PASSWORD_PROMPT username), PASSWORD))"

text \<open>How an f-string prints \<open>username\<close>, which may be \<open>None\<close>.\<close>

definition str_opt :: "pystr option \<Rightarrow> pystr" where
  "str_opt u = (case u of None \<Rightarrow> ascii ''None'' | Some s \<Rightarrow> s)"

definition receive_password :: "bot_state \<Rightarrow> update \<Rightarrow> error + bot_state \<times> int" where
  "receive_password st upd =
     (let password = strip (message_text upd);
          username = user_data st (effective_user_id upd) ''username'';
          user_id = effective_user_id upd;
          st1 = try_delete st upd
      in case verify username password of
           Inl e \<Rightarrow> Inl e
         | Inr ok \<Rightarrow>
             if ok
             then let st2 = grant st1 user_id;
                      st3 = reply_text st2 upd MSG_LOGIN_SUCCESS;
                      st4 = logger INFO st3
                              (ascii ''User '' @ str_int user_id @ ascii '' ('' @ str_opt username @
                               ascii '') logged in successfully'')
                  in Inr (st4, END)
             else let st2 = reply_text st1 upd MSG_INVALID_CREDENTIALS;
                      st3 = logger WARNING st2
                              (ascii ''Failed login attempt for user '' @ str_int user_id)
                  in Inr (st3, END))"

definition cancel_login :: "bot_state \<Rightarrow> update \<Rightarrow> bot_state \<times> int" where
  "cancel_login st upd = (reply_text st upd MSG_LOGIN_CANCELLED, END)"

definition logout :: "bot_state \<Rightarrow> update \<Rightarrow> error + bot_state" where
  "logout st upd =
     (let user_id = effective_user_id upd in
      if user_id \<in> authenticated_users st
      then (case set_remove (authenticated_users st) user_id of
              Inl e \<Rightarrow> Inl e
            | Inr s \<Rightarrow>
                let st1 = st\<lparr>authenticated_users := s\<rparr>;
                    st2 = reply_text st1 upd MSG_LOGGED_OUT
                in Inr (logger INFO st2 (ascii ''User '' @ str_int user_id @ ascii '' logged out'')))
      else Inr (reply_text st upd MSG_NOT_LOGGED_IN))"

definition help_command :: "bot_state \<Rightarrow> update \<Rightarrow> bot_state" where
  "help_command st upd =
     (let user_id = effective_user_id upd in
      if user_id \<in> authenticated_users st
      then reply_text st upd MSG_HELP
      else reply_text st upd MSG_HELP_LOCKED)"

text \<open>
  The decorator: \<open>wrapper\<close> replies and returns without calling \<open>func\<close> when the sender is
  not in the set, and is \<open>func\<close> otherwise.
\<close>

definition require_auth ::
  "(bot_state \<Rightarrow> update \<Rightarrow> bot_state) \<Rightarrow> bot_state \<Rightarrow> update \<Rightarrow> bot_state" where
  "require_auth func st upd =
     (let user_id = effective_user_id upd in
      if user_id \<notin> authenticated_users st
      then reply_text st upd MSG_AUTH_REQUIRED
      else func st upd)"

text \<open>The four decorated methods: each body, then the method as \<open>@require_auth\<close> leaves it.\<close>

definition info_command_body :: "bot_state \<Rightarrow> update \<Rightarrow> bot_state" where
  "info_command_body st upd = reply_text st upd (MSG_INFO (count_users st))"

definition stats_command_body :: "bot_state \<Rightarrow> update \<Rightarrow> bot_state" where
  "stats_command_body st upd = reply_text st upd (MSG_STATS (count_users st))"

text \<open>
  \<open>users_command\<close> iterates over the set; the order in which a Python set yields its
  elements is the interpreter's, so it is the parameter \<open>iter\<close>.
\<close>

definition users_command_body ::
  "(int set \<Rightarrow> int list) \<Rightarrow> bot_state \<Rightarrow> update \<Rightarrow> bot_state" where
  "users_command_body iter st upd =
     (let user_list = join nl (map (\<lambda>uid. [8226] @ ascii '' User ID: '' @ str_int uid)
                                   (iter (authenticated_users st)))
      in reply_text st upd (MSG_USERS (count_users st) user_list))"

definition data_command_body :: "bot_state \<Rightarrow> update \<Rightarrow> bot_state" where
  "data_command_body st upd = reply_text st upd MSG_DATA"

definition info_command :: "bot_state \<Rightarrow> update \<Rightarrow> bot_state" where
  "info_command = require_auth info_command_body"

definition stats_command :: "bot_state \<Rightarrow> update \<Rightarrow> bot_state" where
  "stats_command = require_auth stats_command_body"

definition users_command :: "(int set \<Rightarrow> int list) \<Rightarrow> bot_state \<Rightarrow> update \<Rightarrow> bot_state" where
  "users_command iter = require_auth (users_command_body iter)"

definition data_command :: "bot_state \<Rightarrow> update \<Rightarrow> bot_state" where
  "data_command = require_auth data_command_body"

definition unauthorized_command :: "bot_state \<Rightarrow> update \<Rightarrow> bot_state" where
  "unauthorized_command st upd =
     (let user_id = effective_user_id upd in
      if user_id \<notin> authenticated_users st
      then reply_text st upd MSG_PLEASE_LOGIN
      else st)"

section \<open>Dispatch, as main() registers the handlers\<close>

text \<open>
  The \<open>ConversationHandler\<close> keeps one state per (chat, user). A handler's return value
  is the next state; \<open>END\<close> removes the entry.
\<close>

definition conv_key :: "update \<Rightarrow> int \<times> int" where
  "conv_key upd = (chat_id upd, effective_user_id upd)"

definition conv_update :: "bot_state \<times> int \<Rightarrow> update \<Rightarrow> bot_state" where
  "conv_update r upd =
     (case r of (st, new_state) \<Rightarrow>
        if new_state = END
        then st\<lparr>conversations := (conversations st)(conv_key upd := None)\<rparr>
        else st\<lparr>conversations := (conversations st)(conv_key upd \<mapsto> new_state)\<rparr>)"

text \<open>
  \<open>login_handler\<close>: with no conversation for the key only the entry point \<open>/login\<close>
  matches; inside a conversation the handler of the current state takes plain text, the
  fallback takes \<open>/cancel\<close>, and there is no re-entry. \<open>None\<close> means that the handler does
  not take the update.
\<close>

definition login_handler :: "bot_state \<Rightarrow> update \<Rightarrow> (error + bot_state) option" where
  "login_handler st upd =
     (case conversations st (conv_key upd) of
        None \<Rightarrow>
          if command upd = Some ''login''
          then Some (Inr (conv_update (login_start st upd) upd))
          else None
      | Some s \<Rightarrow>
          if s = USERNAME \<and> command upd = None
          then Some (Inr (conv_update (receive_username st upd) upd))
          else if s = PASSWORD \<and> command upd = None
          then Some (case receive_password st upd of
                       Inl e \<Rightarrow> Inl e
                     | Inr r \<Rightarrow> Inr (conv_update r upd))
          else if command upd = Some ''cancel''
          then Some (Inr (conv_update (cancel_login st upd) upd))
          else None)"

text \<open>
  All handlers are in one group, so the first one, in the order of \<open>add_handler\<close>, that
  takes the update handles it, and an update that none takes is dropped.
\<close>

definition process_update ::
  "(int set \<Rightarrow> int list) \<Rightarrow> bot_state \<Rightarrow> update \<Rightarrow> error + bot_state" where
  "process_update iter st upd =
     (if command upd = Some ''start'' then Inr (start st upd)
      else case login_handler st upd of
             Some r \<Rightarrow> r
           | None \<Rightarrow>
               if command upd = Some ''logout'' then logout st upd
               else if command upd = Some ''help'' then Inr (help_command st upd)
               else if command upd = Some ''info'' then Inr (info_command st upd)
               else if command upd = Some ''stats'' then Inr (stats_command st upd)
               else if command upd = Some ''users'' then Inr (users_command iter st upd)
               else if command upd = Some ''data'' then Inr (data_command st upd)
               else if command upd = None then Inr (unauthorized_command st upd)
               else Inr st)"

section \<open>Runs of the bot\<close>

text \<open>
  The updates are handled one after the other; the run is \<open>Inl\<close> when a handler raised.
\<close>

fun run_updates ::
  "(int set \<Rightarrow> int list) \<Rightarrow> bot_state \<Rightarrow> update list \<Rightarrow> error + bot_state" where
  "run_updates iter st [] = Inr st"
| "run_updates iter st (u # us) =
     (case process_update iter st u of
        Inl e \<Rightarrow> Inl e
      | Inr st' \<Rightarrow> run_updates iter st' us)"

text \<open>The state at process start: nobody is logged in and nothing has happened.\<close>

definition initial_state :: bot_state where
  "initial_state =
     \<lparr>authenticated_users = {}, user_data = (\<lambda>_. Map.empty), conversations = Map.empty,
      sent = [], deleted = [], logged = []\<rparr>"

text \<open>
  The two kinds of update a user sends: the command \<open>/name\<close>, and a plain text (with the
  answer of the transport to a later request to delete it).
\<close>

definition command_update :: "int \<Rightarrow> int \<Rightarrow> int \<Rightarrow> string \<Rightarrow> update" where
  "command_update chat user mid name =
     \<lparr>effective_user_id = user, chat_id = chat, message_id = mid,
      message_text = 47 # ascii name, command = Some name, delete_raises = False\<rparr>"

definition text_update :: "int \<Rightarrow> int \<Rightarrow> int \<Rightarrow> pystr \<Rightarrow> bool \<Rightarrow> update" where
  "text_update chat user mid txt fails =
     \<lparr>effective_user_id = user, chat_id = chat, message_id = mid,
      message_text = txt, command = None, delete_raises = fails\<rparr>"

text \<open>What \<open>user_data.get('username')\<close> of a user yields after a run.\<close>

definition stored_username :: "error + bot_state \<Rightarrow> int \<Rightarrow> pystr option" where
  "stored_username r user =
     (case r of Inl e \<Rightarrow> None | Inr st \<Rightarrow> user_data st user ''username'')"

text \<open>The conversation state of a (chat, user) after a run; \<open>None\<close> is idle.\<close>

definition pending_step :: "error + bot_state \<Rightarrow> int \<times> int \<Rightarrow> int option" where
  "pending_step r key = (case r of Inl e \<Rightarrow> None | Inr st \<Rightarrow> conversations st key)"

section \<open>Basic facts\<close>

lemmas handler_defs =
  process_update_def login_handler_def conv_key_def conv_update_def
  login_start_def receive_username_def receive_password_def cancel_login_def
  Let_def grant_def reply_text_def logger_def try_delete_def
  USERNAME_def PASSWORD_def END_def

lemmas update_defs = command_update_def text_update_def

lemma strip_admin: "strip (ascii ''admin'') = ascii ''admin''"
  by (simp add: strip_def ascii_def isspace_def)

lemma strip_admin123: "strip (ascii ''admin123'') = ascii ''admin123''"
  by (simp add: strip_def ascii_def isspace_def)

lemma strip_wrong: "strip (ascii ''wrong'') = ascii ''wrong''"
  by (simp add: strip_def ascii_def isspace_def)

lemma admin_secret: "map_of VALID_CREDENTIALS (ascii ''admin'') = Some (ascii ''admin123'')"
  by (simp add: VALID_CREDENTIALS_def ascii_def)

lemma wrong_secret: "ascii ''admin123'' \<noteq> ascii ''wrong''"
  by (simp add: ascii_def)

text \<open>The subscript of line 107 is never reached with a missing key.\<close>

lemma verify_Some: "verify (Some u) p = Inr (map_of VALID_CREDENTIALS u = Some p)"
  by (auto simp: verify_def dict_contains_def dict_getitem_def split: option.splits)

lemma verify_None: "verify None p = Inr False"
  by (simp add: verify_def dict_contains_def)

lemma verify_total: "\<exists>b. verify k p = Inr b"
  by (cases k) (auto simp add: verify_Some verify_None)

text \<open>The two branches of \<open>receive_password\<close>.\<close>

lemma receive_password_ok:
  "verify (user_data st (effective_user_id upd) ''username'') (strip (message_text upd)) = Inr True \<Longrightarrow>
   \<exists>r. receive_password st upd = Inr (r, END) \<and>
       authenticated_users r = insert (effective_user_id upd) (authenticated_users st) \<and>
       user_data r = user_data st \<and> conversations r = conversations st \<and>
       sent r = sent st @ [(chat_id upd, MSG_LOGIN_SUCCESS)]"
  by (simp add: receive_password_def Let_def grant_def reply_text_def logger_def try_delete_def)

lemma receive_password_bad:
  "verify (user_data st (effective_user_id upd) ''username'') (strip (message_text upd)) = Inr False \<Longrightarrow>
   \<exists>r. receive_password st upd = Inr (r, END) \<and>
       authenticated_users r = authenticated_users st \<and>
       user_data r = user_data st \<and> conversations r = conversations st \<and>
       sent r = sent st @ [(chat_id upd, MSG_INVALID_CREDENTIALS)]"
  by (simp add: receive_password_def Let_def grant_def reply_text_def logger_def try_delete_def)

text \<open>A whole login conversation of an idle, logged-out user, with good and with bad credentials.\<close>

lemma login_run_ok:
  assumes "i \<notin> authenticated_users st" and "conversations st (c, i) = None"
    and "map_of VALID_CREDENTIALS (strip u) = Some (strip p)"
  shows "\<exists>s. run_updates iter st
            [command_update c i m1 ''login'', text_update c i m2 u d2, text_update c i m3 p d3] = Inr s \<and>
          authenticated_users s = insert i (authenticated_users st) \<and>
          conversations s = conversations st \<and>
          user_data s = (user_data st)(i := (user_data st i)(''username'' \<mapsto> strip u)) \<and>
          sent s = sent st @ [(c, MSG_LOGIN_PROMPT), (c, MSG_PASSWORD_PROMPT (strip u)), (c, MSG_LOGIN_SUCCESS)]"
  using assms
  by (auto simp add: handler_defs update_defs verify_Some)

lemma login_run_bad:
  assumes "i \<notin> authenticated_users st" and "conversations st (c, i) = None"
    and "map_of VALID_CREDENTIALS (strip u) \<noteq> Some (strip p)"
  shows "\<exists>s. run_updates iter st
            [command_update c i m1 ''login'', text_update c i m2 u d2, text_update c i m3 p d3] = Inr s \<and>
          authenticated_users s = authenticated_users st \<and>
          conversations s = conversations st \<and>
          user_data s = (user_data st)(i := (user_data st i)(''username'' \<mapsto> strip u)) \<and>
          sent s = sent st @ [(c, MSG_LOGIN_PROMPT), (c, MSG_PASSWORD_PROMPT (strip u)), (c, MSG_INVALID_CREDENTIALS)]"
  using assms
  by (auto simp add: handler_defs update_defs verify_Some)

lemma run_updates_append:
  "run_updates iter st (xs @ ys) =
     (case run_updates iter st xs of Inl e \<Rightarrow> Inl e | Inr s \<Rightarrow> run_updates iter s ys)"
  by (induction xs arbitrary: st) (auto split: sum.splits)

text \<open>Outside a conversation, the plain text of a logged-in user reaches only
  \<open>unauthorized_command\<close>, which does nothing for them.\<close>

lemma stray_text_ignored:
  "effective_user_id upd \<in> authenticated_users st \<Longrightarrow> conversations st (conv_key upd) = None \<Longrightarrow>
   command upd = None \<Longrightarrow> process_update iter st upd = Inr st"
  by (simp add: process_update_def login_handler_def unauthorized_command_def)

section \<open>Credential check\<close>

text \<open>
  Claim C4. For every username \<open>u\<close> and secret \<open>s\<close> the check of line 107 is true exactly
  when \<open>u\<close> is a key of \<open>VALID_CREDENTIALS\<close> whose stored secret is \<open>s\<close> itself (the pair is
  in the table, compared without any normalisation); for a username that is not a key it
  is the ordinary value false, never a \<open>KeyError\<close>.
\<close>

theorem verify_correct:
  "verify (Some u) s = Inr (map_of VALID_CREDENTIALS u = Some s) \<and>
   (verify (Some u) s = Inr True \<longleftrightarrow> (u, s) \<in> set VALID_CREDENTIALS) \<and>
   (u \<notin> fst ` set VALID_CREDENTIALS \<longrightarrow> verify (Some u) s = Inr False)"
proof -
  have d: "distinct (map fst VALID_CREDENTIALS)"
    by (simp add: VALID_CREDENTIALS_def ascii_def)
  have "map_of VALID_CREDENTIALS u = Some s \<longleftrightarrow> (u, s) \<in> set VALID_CREDENTIALS"
    using d by simp
  moreover have "u \<notin> fst ` set VALID_CREDENTIALS \<Longrightarrow> map_of VALID_CREDENTIALS u = None"
    by (simp add: map_of_eq_None_iff)
  ultimately show ?thesis
    by (simp add: verify_Some)
qed

theorem verify_correct_witness:
  "ascii ''nouser'' \<notin> fst ` set VALID_CREDENTIALS \<and>
   verify (Some (ascii ''nouser'')) (ascii ''anything'') = Inr False \<and>
   verify (Some (ascii ''admin'')) (ascii ''admin123'') = Inr True \<and>
   verify (Some (ascii ''admin'')) (ascii ''Admin123'') = Inr False \<and>
   verify (Some (ascii ''admin'')) (ascii ''admin123 '') = Inr False"
  using verify_correct [of "ascii ''nouser''" "ascii ''anything''"]
    verify_correct [of "ascii ''admin''" "ascii ''admin123''"]
    verify_correct [of "ascii ''admin''" "ascii ''Admin123''"]
    verify_correct [of "ascii ''admin''" "ascii ''admin123 ''"]
  by (simp add: VALID_CREDENTIALS_def ascii_def)

section \<open>The session set\<close>

text \<open>
  Claim C6. Adding an identity to the session set twice in a row gives the same state as
  adding it once, and the number of sessions after the second call equals the number
  after the first.
\<close>

theorem grant_idempotent:
  "grant (grant st i) i = grant st i \<and>
   count_users (grant (grant st i) i) = count_users (grant st i)"
  by (simp add: grant_def count_users_def)

text \<open>
  Claim C5. After an identity \<open>i\<close> is added to the session set it is a member; a
  following \<open>/logout\<close> of \<open>i\<close> removes \<open>i\<close> (and nobody else) and answers with the
  logged-out text; a second \<open>/logout\<close> right after leaves \<open>i\<close> absent and answers with
  the different not-logged-in text. Neither call raises.
\<close>

theorem session_lifecycle:
  assumes "effective_user_id upd = i" and "effective_user_id upd' = i"
  shows "i \<in> authenticated_users (grant st i) \<and>
         (\<exists>s1 s2. logout (grant st i) upd = Inr s1 \<and>
            i \<notin> authenticated_users s1 \<and>
            authenticated_users s1 = authenticated_users st - {i} \<and>
            sent s1 = sent st @ [(chat_id upd, MSG_LOGGED_OUT)] \<and>
            logout s1 upd' = Inr s2 \<and>
            i \<notin> authenticated_users s2 \<and>
            sent s2 = sent s1 @ [(chat_id upd', MSG_NOT_LOGGED_IN)]) \<and>
         MSG_LOGGED_OUT \<noteq> MSG_NOT_LOGGED_IN"
proof -
  have "MSG_LOGGED_OUT \<noteq> MSG_NOT_LOGGED_IN"
    by (simp add: MSG_LOGGED_OUT_def MSG_NOT_LOGGED_IN_def ascii_def)
  then show ?thesis
    using assms
    by (simp add: logout_def set_remove_def grant_def reply_text_def logger_def Let_def)
qed

theorem session_lifecycle_witness:
  "effective_user_id (command_update 7 7 1 ''logout'') = 7 \<and>
   effective_user_id (command_update 7 7 2 ''logout'') = 7 \<and>
   7 \<in> authenticated_users (grant initial_state 7) \<and>
   (\<exists>s1 s2. logout (grant initial_state 7) (command_update 7 7 1 ''logout'') = Inr s1 \<and>
      7 \<notin> authenticated_users s1 \<and>
      logout s1 (command_update 7 7 2 ''logout'') = Inr s2 \<and>
      7 \<notin> authenticated_users s2 \<and>
      sent s2 = [(7, MSG_LOGGED_OUT), (7, MSG_NOT_LOGGED_IN)])"
proof -
  have h1: "effective_user_id (command_update 7 7 1 ''logout'') = 7"
    by (simp add: command_update_def)
  have h2: "effective_user_id (command_update 7 7 2 ''logout'') = 7"
    by (simp add: command_update_def)
  have c: "chat_id (command_update 7 7 1 ''logout'') = 7" "chat_id (command_update 7 7 2 ''logout'') = 7"
    "sent initial_state = []"
    by (simp_all add: command_update_def initial_state_def)
  from session_lifecycle [OF h1 h2, of initial_state] obtain s1 s2 where
    "logout (grant initial_state 7) (command_update 7 7 1 ''logout'') = Inr s1"
    "7 \<notin> authenticated_users s1"
    "sent s1 = sent initial_state @ [(chat_id (command_update 7 7 1 ''logout''), MSG_LOGGED_OUT)]"
    "logout s1 (command_update 7 7 2 ''logout'') = Inr s2"
    "7 \<notin> authenticated_users s2"
    "sent s2 = sent s1 @ [(chat_id (command_update 7 7 2 ''logout''), MSG_NOT_LOGGED_IN)]"
    by blast
  then show ?thesis
    using h1 h2 c by (simp add: grant_def)
qed

section \<open>The authorization guard\<close>

text \<open>
  Claim C1. When the sender of an update is not in the session set, the wrapper of
  \<open>require_auth\<close> returns the state with one more reply, the authentication-required
  text, whatever the wrapped function is: the function is not called (a stub that records
  its calls in the log leaves the log as it was), and the session set and every other
  part of the state are unchanged. This holds for \<open>info\<close>, \<open>stats\<close>, \<open>users\<close> and \<open>data\<close>,
  called directly or reached through the dispatch of the command.
\<close>

theorem guard_denies:
  assumes "effective_user_id upd \<notin> authenticated_users st"
  shows "require_auth func st upd = st\<lparr>sent := sent st @ [(chat_id upd, MSG_AUTH_REQUIRED)]\<rparr> \<and>
         info_command st upd = st\<lparr>sent := sent st @ [(chat_id upd, MSG_AUTH_REQUIRED)]\<rparr> \<and>
         stats_command st upd = st\<lparr>sent := sent st @ [(chat_id upd, MSG_AUTH_REQUIRED)]\<rparr> \<and>
         users_command iter st upd = st\<lparr>sent := sent st @ [(chat_id upd, MSG_AUTH_REQUIRED)]\<rparr> \<and>
         data_command st upd = st\<lparr>sent := sent st @ [(chat_id upd, MSG_AUTH_REQUIRED)]\<rparr> \<and>
         authenticated_users (require_auth func st upd) = authenticated_users st \<and>
         (command upd \<in> {Some ''info'', Some ''stats'', Some ''users'', Some ''data''} \<longrightarrow>
            process_update iter st upd =
              Inr (st\<lparr>sent := sent st @ [(chat_id upd, MSG_AUTH_REQUIRED)]\<rparr>))"
proof -
  have g: "require_auth f st upd = st\<lparr>sent := sent st @ [(chat_id upd, MSG_AUTH_REQUIRED)]\<rparr>" for f
    using assms by (simp add: require_auth_def reply_text_def)
  have p: "process_update iter st upd =
              Inr (st\<lparr>sent := sent st @ [(chat_id upd, MSG_AUTH_REQUIRED)]\<rparr>)"
    if "command upd \<in> {Some ''info'', Some ''stats'', Some ''users'', Some ''data''}"
    using that
    by (auto simp add: process_update_def login_handler_def g info_command_def stats_command_def
        users_command_def data_command_def split: option.splits)
  show ?thesis
    using p by (simp add: g info_command_def stats_command_def users_command_def data_command_def)
qed

theorem guard_denies_witness:
  "effective_user_id (command_update 5 5 1 ''info'') \<notin> authenticated_users initial_state \<and>
   require_auth (\<lambda>s u. logger INFO s (ascii ''called'')) initial_state (command_update 5 5 1 ''info'') =
     initial_state\<lparr>sent := [(5, MSG_AUTH_REQUIRED)]\<rparr> \<and>
   logged (require_auth (\<lambda>s u. logger INFO s (ascii ''called'')) initial_state
             (command_update 5 5 1 ''info'')) = [] \<and>
   process_update sorted_list_of_set initial_state (command_update 5 5 1 ''info'') =
     Inr (initial_state\<lparr>sent := [(5, MSG_AUTH_REQUIRED)]\<rparr>)"
proof -
  have h: "effective_user_id (command_update 5 5 1 ''info'') \<notin> authenticated_users initial_state"
    by (simp add: command_update_def initial_state_def)
  show ?thesis
    using h guard_denies [OF h, of "\<lambda>s u. logger INFO s (ascii ''called'')" sorted_list_of_set]
    by (simp add: command_update_def initial_state_def)
qed

section \<open>The login conversation\<close>

text \<open>
  Claim C7. \<open>login_start\<close> for a sender who is logged in replies that they are already
  logged in and returns \<open>END\<close>, so that the sender has no conversation entry afterwards
  and \<open>user_data\<close> is untouched; for a sender who is not logged in it replies with the
  prompt for the username and returns \<open>USERNAME\<close>, which becomes the conversation state
  of the sender. The dispatch calls it for \<open>/login\<close> from a sender with no conversation.
\<close>

theorem login_start_precondition:
  "(effective_user_id upd \<in> authenticated_users st \<longrightarrow>
      login_start st upd = (st\<lparr>sent := sent st @ [(chat_id upd, MSG_ALREADY_LOGGED_IN)]\<rparr>, END) \<and>
      conversations (conv_update (login_start st upd) upd) (conv_key upd) = None \<and>
      user_data (conv_update (login_start st upd) upd) = user_data st) \<and>
   (effective_user_id upd \<notin> authenticated_users st \<longrightarrow>
      login_start st upd = (st\<lparr>sent := sent st @ [(chat_id upd, MSG_LOGIN_PROMPT)]\<rparr>, USERNAME) \<and>
      conversations (conv_update (login_start st upd) upd) (conv_key upd) = Some USERNAME) \<and>
   (command upd = Some ''login'' \<and> conversations st (conv_key upd) = None \<longrightarrow>
      process_update iter st upd = Inr (conv_update (login_start st upd) upd)) \<and>
   str_contains (ascii ''already logged in'') MSG_ALREADY_LOGGED_IN \<and>
   str_contains (ascii ''enter your username'') MSG_LOGIN_PROMPT"
proof -
  have a: "str_contains (ascii ''already logged in'') MSG_ALREADY_LOGGED_IN"
    by (simp add: MSG_ALREADY_LOGGED_IN_def ascii_def)
  have b: "str_contains (ascii ''enter your username'') MSG_LOGIN_PROMPT"
    by (simp add: MSG_LOGIN_PROMPT_def ascii_def nl_def)
  have c: "command upd = Some ''login'' \<and> conversations st (conv_key upd) = None \<longrightarrow>
      process_update iter st upd = Inr (conv_update (login_start st upd) upd)"
    by (simp add: process_update_def login_handler_def)
  have d: "effective_user_id upd \<in> authenticated_users st \<longrightarrow>
      login_start st upd = (st\<lparr>sent := sent st @ [(chat_id upd, MSG_ALREADY_LOGGED_IN)]\<rparr>, END) \<and>
      conversations (conv_update (login_start st upd) upd) (conv_key upd) = None \<and>
      user_data (conv_update (login_start st upd) upd) = user_data st"
    by (simp add: login_start_def conv_update_def reply_text_def)
  have e: "effective_user_id upd \<notin> authenticated_users st \<longrightarrow>
      login_start st upd = (st\<lparr>sent := sent st @ [(chat_id upd, MSG_LOGIN_PROMPT)]\<rparr>, USERNAME) \<and>
      conversations (conv_update (login_start st upd) upd) (conv_key upd) = Some USERNAME"
    by (simp add: login_start_def conv_update_def reply_text_def USERNAME_def END_def)
  from a b c d e show ?thesis by blast
qed

theorem login_start_precondition_witness:
  "effective_user_id (command_update 7 7 1 ''login'') \<in> authenticated_users (grant initial_state 7) \<and>
   process_update sorted_list_of_set (grant initial_state 7) (command_update 7 7 1 ''login'') =
     Inr (grant initial_state 7\<lparr>sent := [(7, MSG_ALREADY_LOGGED_IN)]\<rparr>) \<and>
   effective_user_id (command_update 7 7 1 ''login'') \<notin> authenticated_users initial_state \<and>
   process_update sorted_list_of_set initial_state (command_update 7 7 1 ''login'') =
     Inr (initial_state\<lparr>sent := [(7, MSG_LOGIN_PROMPT)], conversations := [(7, 7) \<mapsto> USERNAME]\<rparr>)"
  using login_start_precondition
      [of "command_update 7 7 1 ''login''" "grant initial_state 7" sorted_list_of_set]
    login_start_precondition
      [of "command_update 7 7 1 ''login''" initial_state sorted_list_of_set]
  by (simp add: command_update_def initial_state_def grant_def conv_update_def conv_key_def
      END_def USERNAME_def)

text \<open>
  Claim C2. For an identity \<open>i\<close> that is logged out and has no conversation in chat \<open>c\<close>,
  the updates \<open>/login\<close>, \<open>admin\<close>, \<open>admin123\<close> run without an error and leave \<open>i\<close> in the
  session set with no conversation entry; any plain text of \<open>i\<close> that follows is handled
  without changing the state at all.
\<close>

theorem login_roundtrip:
  assumes "i \<notin> authenticated_users st" and "conversations st (c, i) = None"
  shows "\<exists>s. run_updates iter st
            [command_update c i m1 ''login'',
             text_update c i m2 (ascii ''admin'') d2,
             text_update c i m3 (ascii ''admin123'') d3] = Inr s \<and>
          i \<in> authenticated_users s \<and>
          conversations s (c, i) = None \<and>
          process_update iter s (text_update c i m4 txt d4) = Inr s"
proof -
  have "map_of VALID_CREDENTIALS (strip (ascii ''admin'')) = Some (strip (ascii ''admin123''))"
    by (simp add: strip_admin strip_admin123 admin_secret)
  from login_run_ok [OF assms this, of iter m1 m2 d2 m3 d3] obtain s where
    s: "run_updates iter st
            [command_update c i m1 ''login'',
             text_update c i m2 (ascii ''admin'') d2,
             text_update c i m3 (ascii ''admin123'') d3] = Inr s"
      "authenticated_users s = insert i (authenticated_users st)"
      "conversations s = conversations st"
    by blast
  have "process_update iter s (text_update c i m4 txt d4) = Inr s"
    by (rule stray_text_ignored) (simp_all add: s assms text_update_def conv_key_def)
  with s assms show ?thesis by simp
qed

theorem login_roundtrip_witness:
  "7 \<notin> authenticated_users initial_state \<and> conversations initial_state (7, 7) = None \<and>
   (\<exists>s. run_updates sorted_list_of_set initial_state
            [command_update 7 7 1 ''login'',
             text_update 7 7 2 (ascii ''admin'') False,
             text_update 7 7 3 (ascii ''admin123'') False] = Inr s \<and>
          7 \<in> authenticated_users s \<and>
          conversations s (7, 7) = None \<and>
          process_update sorted_list_of_set s (text_update 7 7 4 (ascii ''admin123'') False) = Inr s)"
proof -
  have h1: "7 \<notin> authenticated_users initial_state" by (simp add: initial_state_def)
  have h2: "conversations initial_state (7, 7) = None" by (simp add: initial_state_def)
  show ?thesis
    using h1 h2 login_roundtrip [OF h1 h2, of sorted_list_of_set 1 2 False 3 False 4 "ascii ''admin123''" False]
    by simp
qed

text \<open>
  Claim C3. For an identity \<open>i\<close> that is logged out and has no conversation in chat \<open>c\<close>,
  the updates \<open>/login\<close>, \<open>admin\<close>, \<open>wrong\<close> run without an error, leave the session set as
  it was (so \<open>i\<close> is still logged out), leave \<open>i\<close> without a conversation entry, and the
  last step sends exactly one reply, the invalid-credentials text. That text contains
  neither \<open>username\<close> nor \<open>password\<close> in any letter case, and it is the reply of every
  failed check, whichever of the two was wrong.
\<close>

theorem invalid_roundtrip:
  assumes "i \<notin> authenticated_users st" and "conversations st (c, i) = None"
  shows "(\<exists>s. run_updates iter st
            [command_update c i m1 ''login'',
             text_update c i m2 (ascii ''admin'') d2,
             text_update c i m3 (ascii ''wrong'') d3] = Inr s \<and>
          i \<notin> authenticated_users s \<and>
          authenticated_users s = authenticated_users st \<and>
          conversations s (c, i) = None \<and>
          sent s = sent st @ [(c, MSG_LOGIN_PROMPT), (c, MSG_PASSWORD_PROMPT (ascii ''admin'')),
                              (c, MSG_INVALID_CREDENTIALS)]) \<and>
         \<not> str_contains (ascii ''username'') (lower MSG_INVALID_CREDENTIALS) \<and>
         \<not> str_contains (ascii ''password'') (lower MSG_INVALID_CREDENTIALS) \<and>
         (verify (user_data st' (effective_user_id upd') ''username'') (strip (message_text upd'))
            \<noteq> Inr True \<longrightarrow>
          (\<exists>r. receive_password st' upd' = Inr (r, END) \<and>
               sent r = sent st' @ [(chat_id upd', MSG_INVALID_CREDENTIALS)]))"
proof -
  have "map_of VALID_CREDENTIALS (strip (ascii ''admin'')) \<noteq> Some (strip (ascii ''wrong''))"
    using wrong_secret by (simp add: strip_admin strip_wrong admin_secret)
  from login_run_bad [OF assms this, of iter m1 m2 d2 m3 d3]
  have run: "\<exists>s. run_updates iter st
            [command_update c i m1 ''login'',
             text_update c i m2 (ascii ''admin'') d2,
             text_update c i m3 (ascii ''wrong'') d3] = Inr s \<and>
          i \<notin> authenticated_users s \<and>
          authenticated_users s = authenticated_users st \<and>
          conversations s (c, i) = None \<and>
          sent s = sent st @ [(c, MSG_LOGIN_PROMPT), (c, MSG_PASSWORD_PROMPT (ascii ''admin'')),
                              (c, MSG_INVALID_CREDENTIALS)]"
    using assms by (auto simp add: strip_admin)
  have u: "\<not> str_contains (ascii ''username'') (lower MSG_INVALID_CREDENTIALS)"
    by (simp add: MSG_INVALID_CREDENTIALS_def ascii_def lower_def nl_def)
  have p: "\<not> str_contains (ascii ''password'') (lower MSG_INVALID_CREDENTIALS)"
    by (simp add: MSG_INVALID_CREDENTIALS_def ascii_def lower_def nl_def)
  have g: "\<exists>r. receive_password st' upd' = Inr (r, END) \<and>
               sent r = sent st' @ [(chat_id upd', MSG_INVALID_CREDENTIALS)]"
    if "verify (user_data st' (effective_user_id upd') ''username'') (strip (message_text upd'))
            \<noteq> Inr True"
  proof -
    from verify_total obtain b where
      "verify (user_data st' (effective_user_id upd') ''username'') (strip (message_text upd')) = Inr b"
      by blast
    with that have
      "verify (user_data st' (effective_user_id upd') ''username'') (strip (message_text upd')) = Inr False"
      by simp
    from receive_password_bad [OF this] show ?thesis by blast
  qed
  from run u p g show ?thesis by blast
qed

theorem invalid_roundtrip_witness:
  "7 \<notin> authenticated_users initial_state \<and> conversations initial_state (7, 7) = None \<and>
   (\<exists>s. run_updates sorted_list_of_set initial_state
            [command_update 7 7 1 ''login'',
             text_update 7 7 2 (ascii ''admin'') False,
             text_update 7 7 3 (ascii ''wrong'') False] = Inr s \<and>
          7 \<notin> authenticated_users s \<and>
          conversations s (7, 7) = None \<and>
          sent s = [(7, MSG_LOGIN_PROMPT), (7, MSG_PASSWORD_PROMPT (ascii ''admin'')),
                    (7, MSG_INVALID_CREDENTIALS)]) \<and>
   verify (user_data initial_state (effective_user_id (text_update 7 7 3 (ascii ''admin123'') False))
             ''username'') (strip (message_text (text_update 7 7 3 (ascii ''admin123'') False)))
     \<noteq> Inr True \<and>
   (\<exists>r. receive_password initial_state (text_update 7 7 3 (ascii ''admin123'') False) = Inr (r, END) \<and>
        sent r = [(7, MSG_INVALID_CREDENTIALS)])"
proof -
  have h1: "7 \<notin> authenticated_users initial_state" by (simp add: initial_state_def)
  have h2: "conversations initial_state (7, 7) = None" by (simp add: initial_state_def)
  have h3: "verify (user_data initial_state (effective_user_id (text_update 7 7 3 (ascii ''admin123'') False))
             ''username'') (strip (message_text (text_update 7 7 3 (ascii ''admin123'') False)))
     \<noteq> Inr True"
    by (simp add: initial_state_def verify_None)
  have e: "sent initial_state = []" "chat_id (text_update 7 7 3 (ascii ''admin123'') False) = 7"
    by (simp_all add: initial_state_def text_update_def)
  show ?thesis
    using h1 h2 h3 invalid_roundtrip [OF h1 h2, of sorted_list_of_set 1 2 False 3 False initial_state
        "text_update 7 7 3 (ascii ''admin123'') False"]
    by (simp only: e append_Nil) blast
qed

text \<open>
  Claim C9. When \<open>user_data\<close> of the sender holds no username, \<open>receive_password\<close> does
  not raise: the membership test on \<open>VALID_CREDENTIALS\<close> is false, so the subscript is
  not evaluated, the invalid-credentials reply is sent, the handler returns \<open>END\<close> and the
  session set is unchanged.
\<close>

theorem receive_password_no_username:
  assumes "user_data st (effective_user_id upd) ''username'' = None"
  shows "\<not> dict_contains VALID_CREDENTIALS (user_data st (effective_user_id upd) ''username'') \<and>
         (\<exists>r. receive_password st upd = Inr (r, END) \<and>
              authenticated_users r = authenticated_users st \<and>
              sent r = sent st @ [(chat_id upd, MSG_INVALID_CREDENTIALS)])"
proof -
  have "verify (user_data st (effective_user_id upd) ''username'') (strip (message_text upd)) = Inr False"
    using assms by (simp add: verify_None)
  from receive_password_bad [OF this] show ?thesis
    using assms by (auto simp add: dict_contains_def)
qed

theorem receive_password_no_username_witness:
  "user_data initial_state (effective_user_id (text_update 7 7 1 (ascii ''admin123'') False))
     ''username'' = None \<and>
   (\<exists>r. receive_password initial_state (text_update 7 7 1 (ascii ''admin123'') False) = Inr (r, END) \<and>
        authenticated_users r = {} \<and>
        sent r = [(7, MSG_INVALID_CREDENTIALS)])"
proof -
  have h: "user_data initial_state (effective_user_id (text_update 7 7 1 (ascii ''admin123'') False))
     ''username'' = None"
    by (simp add: initial_state_def)
  show ?thesis
    using h receive_password_no_username [OF h]
    by (simp add: initial_state_def text_update_def)
qed

text \<open>
  Claim C8, as stated, fails: after the conversation \<open>/login\<close>, \<open>admin\<close>, \<open>wrong\<close>, and also
  after \<open>/login\<close>, \<open>admin\<close>, \<open>/cancel\<close>, the conversation entry of the user is gone but
  \<open>user_data\<close> still holds the username \<open>admin\<close>.
\<close>

theorem username_survives_terminal_outcome:
  "stored_username (run_updates sorted_list_of_set initial_state
       [command_update 7 7 1 ''login'',
        text_update 7 7 2 (ascii ''admin'') False,
        text_update 7 7 3 (ascii ''wrong'') False]) 7 = Some (ascii ''admin'') \<and>
   pending_step (run_updates sorted_list_of_set initial_state
       [command_update 7 7 1 ''login'',
        text_update 7 7 2 (ascii ''admin'') False,
        text_update 7 7 3 (ascii ''wrong'') False]) (7, 7) = None \<and>
   stored_username (run_updates sorted_list_of_set initial_state
       [command_update 7 7 1 ''login'',
        text_update 7 7 2 (ascii ''admin'') False,
        command_update 7 7 3 ''cancel'']) 7 = Some (ascii ''admin'') \<and>
   pending_step (run_updates sorted_list_of_set initial_state
       [command_update 7 7 1 ''login'',
        text_update 7 7 2 (ascii ''admin'') False,
        command_update 7 7 3 ''cancel'']) (7, 7) = None"
  by (simp add: stored_username_def pending_step_def initial_state_def handler_defs update_defs
      verify_Some strip_admin strip_wrong admin_secret wrong_secret)

text \<open>
  Claim C8, amended. Whenever the login conversation of a sender reaches a terminal
  outcome (a password that is accepted or rejected, or \<open>/cancel\<close>), the update is handled
  without an error and the pending step is removed: the sender has no conversation entry
  afterwards. The stored username is not cleared: \<open>user_data\<close> is exactly as before.
\<close>

theorem terminal_outcome_clears_step_only:
  assumes "conversations st (conv_key upd) = Some q"
    and "(q = PASSWORD \<and> command upd = None) \<or> command upd = Some ''cancel''"
  shows "\<exists>s. process_update iter st upd = Inr s \<and>
             conversations s (conv_key upd) = None \<and>
             user_data s = user_data st"
proof -
  from verify_total obtain b where
    b: "verify (user_data st (effective_user_id upd) ''username'') (strip (message_text upd)) = Inr b"
    by blast
  show ?thesis
    using assms b
    by (cases b) (auto simp add: handler_defs)
qed

theorem terminal_outcome_clears_step_only_witness:
  "conversations
     (initial_state\<lparr>conversations := [(7, 7) \<mapsto> PASSWORD],
                    user_data := (\<lambda>_. Map.empty)(7 := [''username'' \<mapsto> ascii ''admin''])\<rparr>)
     (conv_key (text_update 7 7 3 (ascii ''wrong'') False)) = Some PASSWORD \<and>
   command (text_update 7 7 3 (ascii ''wrong'') False) = None \<and>
   (\<exists>s. process_update sorted_list_of_set
          (initial_state\<lparr>conversations := [(7, 7) \<mapsto> PASSWORD],
                         user_data := (\<lambda>_. Map.empty)(7 := [''username'' \<mapsto> ascii ''admin''])\<rparr>)
          (text_update 7 7 3 (ascii ''wrong'') False) = Inr s \<and>
        conversations s (7, 7) = None \<and>
        user_data s 7 ''username'' = Some (ascii ''admin''))"
proof -
  let ?st = "initial_state\<lparr>conversations := [(7, 7) \<mapsto> PASSWORD],
                    user_data := (\<lambda>_. Map.empty)(7 := [''username'' \<mapsto> ascii ''admin''])\<rparr>"
  let ?u = "text_update 7 7 3 (ascii ''wrong'') False"
  have k: "conv_key ?u = (7, 7)" by (simp add: conv_key_def text_update_def)
  have h1: "conversations ?st (conv_key ?u) = Some PASSWORD" by (simp add: k)
  have c: "command ?u = None" by (simp add: text_update_def)
  then have h2: "(PASSWORD = PASSWORD \<and> command ?u = None) \<or> command ?u = Some ''cancel''"
    by simp
  from terminal_outcome_clears_step_only [OF h1 h2, of sorted_list_of_set] obtain s where
    "process_update sorted_list_of_set ?st ?u = Inr s" "conversations s (conv_key ?u) = None"
    "user_data s = user_data ?st"
    by blast
  then have "process_update sorted_list_of_set ?st ?u = Inr s \<and> conversations s (7, 7) = None \<and>
     user_data s 7 ''username'' = Some (ascii ''admin'')"
    by (simp add: k)
  then show ?thesis using h1 c by blast
qed

section \<open>Sessions belong to identities\<close>

text \<open>
  Claim C10. A successful \<open>receive_password\<close> adds exactly the sender to the session
  set and \<open>logout\<close> removes exactly the sender; membership of every other identity is
  unchanged. Two distinct identities that each complete the login conversation with the
  same pair \<open>admin\<close>, \<open>admin123\<close> are both in the session set afterwards.
\<close>

theorem sessions_keyed_by_identity:
  "(verify (user_data st (effective_user_id upd) ''username'') (strip (message_text upd)) = Inr True \<longrightarrow>
      (\<exists>r. receive_password st upd = Inr (r, END) \<and>
           authenticated_users r = insert (effective_user_id upd) (authenticated_users st) \<and>
           (\<forall>j. j \<noteq> effective_user_id upd \<longrightarrow>
                (j \<in> authenticated_users r \<longleftrightarrow> j \<in> authenticated_users st)))) \<and>
   (\<exists>r. logout st upd = Inr r \<and>
        authenticated_users r = authenticated_users st - {effective_user_id upd} \<and>
        (\<forall>j. j \<noteq> effective_user_id upd \<longrightarrow>
             (j \<in> authenticated_users r \<longleftrightarrow> j \<in> authenticated_users st))) \<and>
   (i \<noteq> j \<and> i \<notin> authenticated_users st \<and> j \<notin> authenticated_users st \<and>
    conversations st (ci, i) = None \<and> conversations st (cj, j) = None \<longrightarrow>
      (\<exists>s. run_updates iter st
             [command_update ci i m1 ''login'',
              text_update ci i m2 (ascii ''admin'') d2,
              text_update ci i m3 (ascii ''admin123'') d3,
              command_update cj j m4 ''login'',
              text_update cj j m5 (ascii ''admin'') d5,
              text_update cj j m6 (ascii ''admin123'') d6] = Inr s \<and>
           authenticated_users s = insert j (insert i (authenticated_users st))))"
proof -
  have a: "\<exists>r. receive_password st upd = Inr (r, END) \<and>
           authenticated_users r = insert (effective_user_id upd) (authenticated_users st) \<and>
           (\<forall>j. j \<noteq> effective_user_id upd \<longrightarrow>
                (j \<in> authenticated_users r \<longleftrightarrow> j \<in> authenticated_users st))"
    if "verify (user_data st (effective_user_id upd) ''username'') (strip (message_text upd)) = Inr True"
    using receive_password_ok [OF that] by auto
  have b: "\<exists>r. logout st upd = Inr r \<and>
        authenticated_users r = authenticated_users st - {effective_user_id upd} \<and>
        (\<forall>j. j \<noteq> effective_user_id upd \<longrightarrow>
             (j \<in> authenticated_users r \<longleftrightarrow> j \<in> authenticated_users st))"
    by (auto simp add: logout_def set_remove_def reply_text_def logger_def Let_def)
  have c: "\<exists>s. run_updates iter st
             [command_update ci i m1 ''login'',
              text_update ci i m2 (ascii ''admin'') d2,
              text_update ci i m3 (ascii ''admin123'') d3,
              command_update cj j m4 ''login'',
              text_update cj j m5 (ascii ''admin'') d5,
              text_update cj j m6 (ascii ''admin123'') d6] = Inr s \<and>
           authenticated_users s = insert j (insert i (authenticated_users st))"
    if h: "i \<noteq> j" "i \<notin> authenticated_users st" "j \<notin> authenticated_users st"
      "conversations st (ci, i) = None" "conversations st (cj, j) = None"
  proof -
    have ok: "map_of VALID_CREDENTIALS (strip (ascii ''admin'')) = Some (strip (ascii ''admin123''))"
      by (simp add: strip_admin strip_admin123 admin_secret)
    from login_run_ok [OF h(2) h(4) ok, of iter m1 m2 d2 m3 d3] obtain s1 where
      s1: "run_updates iter st
             [command_update ci i m1 ''login'',
              text_update ci i m2 (ascii ''admin'') d2,
              text_update ci i m3 (ascii ''admin123'') d3] = Inr s1"
        "authenticated_users s1 = insert i (authenticated_users st)"
        "conversations s1 = conversations st"
      by blast
    have "j \<notin> authenticated_users s1" "conversations s1 (cj, j) = None"
      using h s1 by auto
    from login_run_ok [OF this ok, of iter m4 m5 d5 m6 d6] obtain s2 where
      s2: "run_updates iter s1
             [command_update cj j m4 ''login'',
              text_update cj j m5 (ascii ''admin'') d5,
              text_update cj j m6 (ascii ''admin123'') d6] = Inr s2"
        "authenticated_users s2 = insert j (authenticated_users s1)"
      by blast
    have "run_updates iter st
             ([command_update ci i m1 ''login'',
              text_update ci i m2 (ascii ''admin'') d2,
              text_update ci i m3 (ascii ''admin123'') d3] @
              [command_update cj j m4 ''login'',
              text_update cj j m5 (ascii ''admin'') d5,
              text_update cj j m6 (ascii ''admin123'') d6]) = Inr s2"
      unfolding run_updates_append by (simp only: s1 s2 sum.case)
    then show ?thesis
      using s1(2) s2(2) by (simp del: run_updates.simps)
  qed
  from a b c show ?thesis by blast
qed

theorem sessions_keyed_by_identity_witness:
  "verify (user_data (initial_state\<lparr>user_data := (\<lambda>_. Map.empty)(1 := [''username'' \<mapsto> ascii ''admin''])\<rparr>)
             (effective_user_id (text_update 1 1 3 (ascii ''admin123'') False)) ''username'')
     (strip (message_text (text_update 1 1 3 (ascii ''admin123'') False))) = Inr True \<and>
   (\<exists>r. receive_password
          (initial_state\<lparr>user_data := (\<lambda>_. Map.empty)(1 := [''username'' \<mapsto> ascii ''admin''])\<rparr>)
          (text_update 1 1 3 (ascii ''admin123'') False) = Inr (r, END) \<and>
        authenticated_users r = {1}) \<and>
   (1::int) \<noteq> 2 \<and> 1 \<notin> authenticated_users initial_state \<and> 2 \<notin> authenticated_users initial_state \<and>
   conversations initial_state (1, 1) = None \<and> conversations initial_state (2, 2) = None \<and>
   (\<exists>s. run_updates sorted_list_of_set initial_state
             [command_update 1 1 1 ''login'',
              text_update 1 1 2 (ascii ''admin'') False,
              text_update 1 1 3 (ascii ''admin123'') False,
              command_update 2 2 4 ''login'',
              text_update 2 2 5 (ascii ''admin'') False,
              text_update 2 2 6 (ascii ''admin123'') False] = Inr s \<and>
         authenticated_users s = {1, 2}) \<and>
   (\<exists>r. logout (initial_state\<lparr>authenticated_users := {1, 2}\<rparr>) (command_update 1 1 7 ''logout'') = Inr r \<and>
        authenticated_users r = {2})"
proof -
  let ?st = "initial_state\<lparr>user_data := (\<lambda>_. Map.empty)(1 := [''username'' \<mapsto> ascii ''admin''])\<rparr>"
  let ?u = "text_update 1 1 3 (ascii ''admin123'') False"
  have v: "verify (user_data ?st (effective_user_id ?u) ''username'') (strip (message_text ?u)) = Inr True"
    by (simp add: text_update_def verify_Some strip_admin123 admin_secret)
  have h: "(1::int) \<noteq> 2 \<and> 1 \<notin> authenticated_users initial_state \<and> 2 \<notin> authenticated_users initial_state \<and>
   conversations initial_state (1, 1) = None \<and> conversations initial_state (2, 2) = None"
    by (simp add: initial_state_def)
  have e: "authenticated_users initial_state = {}" "authenticated_users ?st = {}"
    "effective_user_id ?u = 1"
    by (simp_all add: initial_state_def text_update_def)
  have l: "authenticated_users (initial_state\<lparr>authenticated_users := {1, 2}\<rparr>) -
             {effective_user_id (command_update 1 1 7 ''logout'')} = {2}"
    by (auto simp add: command_update_def)
  have a: "\<exists>r. receive_password ?st ?u = Inr (r, END) \<and> authenticated_users r = {1}"
  proof -
    from v sessions_keyed_by_identity
      [of ?st ?u 1 2 1 2 sorted_list_of_set 1 2 False 3 False 4 5 False 6 False]
    obtain r where "receive_password ?st ?u = Inr (r, END)"
      "authenticated_users r = insert (effective_user_id ?u) (authenticated_users ?st)"
      by blast
    then show ?thesis by (simp add: e)
  qed
  have b: "\<exists>s. run_updates sorted_list_of_set initial_state
             [command_update 1 1 1 ''login'',
              text_update 1 1 2 (ascii ''admin'') False,
              text_update 1 1 3 (ascii ''admin123'') False,
              command_update 2 2 4 ''login'',
              text_update 2 2 5 (ascii ''admin'') False,
              text_update 2 2 6 (ascii ''admin123'') False] = Inr s \<and>
         authenticated_users s = {1, 2}"
  proof -
    from h sessions_keyed_by_identity
      [of initial_state ?u 1 2 1 2 sorted_list_of_set 1 2 False 3 False 4 5 False 6 False]
    obtain s where "run_updates sorted_list_of_set initial_state
             [command_update 1 1 1 ''login'',
              text_update 1 1 2 (ascii ''admin'') False,
              text_update 1 1 3 (ascii ''admin123'') False,
              command_update 2 2 4 ''login'',
              text_update 2 2 5 (ascii ''admin'') False,
              text_update 2 2 6 (ascii ''admin123'') False] = Inr s"
      "authenticated_users s = insert 2 (insert 1 (authenticated_users initial_state))"
      by blast
    then show ?thesis by (simp add: e insert_commute del: run_updates.simps)
  qed
  have c: "\<exists>r. logout (initial_state\<lparr>authenticated_users := {1, 2}\<rparr>)
               (command_update 1 1 7 ''logout'') = Inr r \<and>
        authenticated_users r = {2}"
  proof -
    from sessions_keyed_by_identity
      [of "initial_state\<lparr>authenticated_users := {1, 2}\<rparr>" "command_update 1 1 7 ''logout''"
          1 2 1 2 sorted_list_of_set 1 2 False 3 False 4 5 False 6 False]
    obtain r where
      "logout (initial_state\<lparr>authenticated_users := {1, 2}\<rparr>) (command_update 1 1 7 ''logout'') = Inr r"
      "authenticated_users r = authenticated_users (initial_state\<lparr>authenticated_users := {1, 2}\<rparr>) -
         {effective_user_id (command_update 1 1 7 ''logout'')}"
      by blast
    then show ?thesis by (simp only: l) blast
  qed
  from v a h b c show ?thesis by blast
qed

end
